theory Spec2Isabelle
  imports Main "HOL-Library.Sublist" "HOL-Library.Char_ord" "HOL-Library.List_Lexorder"
begin

section \<open>Strings as the code uses them\<close>

text \<open>
  Device names, platform names and environment values are Python \<open>str\<close> values. They are
  modelled as \<open>string\<close> (a list of 8-bit characters); \<open>str.lower()\<close> is modelled on the
  ASCII letters, which is what it does on every name written with ASCII characters.
\<close>

definition lower_char :: "char \<Rightarrow> char" where
  "lower_char c =
     (case map_of (zip ''ABCDEFGHIJKLMNOPQRSTUVWXYZ'' ''abcdefghijklmnopqrstuvwxyz'') c of
        None \<Rightarrow> c
      | Some l \<Rightarrow> l)"

definition lower :: "string \<Rightarrow> string" where
  "lower s = map lower_char s"

text \<open>Python's \<open>sub in s\<close> on strings: \<open>sub\<close> occurs in \<open>s\<close> as a contiguous run.\<close>

fun str_in :: "string \<Rightarrow> string \<Rightarrow> bool" where
  "str_in sub [] = (sub = [])"
| "str_in sub (c # cs) = (prefix sub (c # cs) \<or> str_in sub cs)"

text \<open>\<open>s.endswith(suffix)\<close>.\<close>

definition endswith :: "string \<Rightarrow> string \<Rightarrow> bool" where
  "endswith s suf = suffix suf s"

text \<open>\<open>str.strip()\<close>: leading and trailing ASCII white space removed.\<close>

definition is_space :: "char \<Rightarrow> bool" where
  "is_space c = (c \<in> {CHR '' '', CHR 0x09, CHR 0x0A, CHR 0x0B, CHR 0x0C, CHR 0x0D})"

definition strip :: "string \<Rightarrow> string" where
  "strip s = rev (dropWhile is_space (rev (dropWhile is_space s)))"

text \<open>Truthiness of an \<open>Optional[str]\<close>: neither \<open>None\<close> nor the empty string.\<close>

fun truthy :: "string option \<Rightarrow> bool" where
  "truthy None = False"
| "truthy (Some s) = (s \<noteq> [])"

section \<open>Data model\<close>

text \<open>
  One entry of \<open>sd.query_devices()\<close>. The audio library fills the keys \<open>name\<close>,
  \<open>max_input_channels\<close>, \<open>max_output_channels\<close> and \<open>hostapi\<close> of every entry, so the
  record has them unconditionally and the defaults of \<open>dict.get\<close> are never taken.
\<close>

record device =
  dev_name :: string
  max_input_channels :: int
  max_output_channels :: int
  hostapi :: int

text \<open>
  \<open>AudioDeviceSummary\<close>. The host-API name and the sample rate are carried by the source
  for rendering only; no decision reads them, and they are left out.
\<close>

record summary =
  index :: nat
  name :: string
  inputs :: int
  outputs :: int

text \<open>
  Modelled from the spec: the enum \<open>AudioCaptureMode\<close> and the settings class
  \<open>AudioInputConfig\<close> are declared in \<open>transcriber/config.py\<close>, which is not among the
  sources; their members and fields are those the spec's data model lists and the code reads.
\<close>

datatype AudioCaptureMode = AUTO | MICROPHONE | LOOPBACK | API

record AudioInputConfig =
  device_index :: "int option"
  mode :: AudioCaptureMode
  auto_setup_loopback :: bool
  linux_loopback_sink :: "string option"

text \<open>
  The single exception class \<open>AudioEnvironmentError\<close>, one constructor per \<open>raise\<close> of the
  source (the message tells them apart there).
\<close>

datatype AudioEnvironmentError =
    EnumerationFailed
  | NoAudioDevices
  | IndexOutOfRange int nat
  | NoInputChannels string
  | NoInputCapableDevices
  | LoopbackFlagNoMonitor
  | LinuxHelperFailed
  | NoLoopbackAfterSetup
  | NoWindowsLoopback
  | NoMacosLoopback

text \<open>The texts that \<open>collect_audio_diagnostics\<close> puts into its two lists.\<close>

datatype issue = NoInputDeviceFound | NoLoopbackCandidateFound

datatype recommendation =
    PinDeviceIndex
  | CheckIndexPointsToLoopback
  | LoopbackCandidates string

record AudioDiagnosticReport =
  r_platform :: string
  r_mode :: AudioCaptureMode
  input_devices :: "summary list"
  loopback_candidates :: "summary list"
  configured_device :: "summary option"
  issues :: "issue list"
  recommendations :: "recommendation list"

section \<open>Capture mode\<close>

text \<open>\<open>resolve_capture_mode\<close>; the first argument is \<open>platform.system()\<close>.\<close>

definition resolve_capture_mode :: "string \<Rightarrow> AudioInputConfig \<Rightarrow> AudioCaptureMode" where
  "resolve_capture_mode platform_system config =
     (if mode config = AUTO then
        (let system = lower platform_system in
         if system \<in> {''linux'', ''windows'', ''darwin''} then LOOPBACK else MICROPHONE)
      else mode config)"

section \<open>Loopback classification: the short-circuit check of the manager\<close>

text \<open>The \<open>sink_hint\<close> both call shapes compute from the platform key and the configuration.\<close>

definition sink_hint_of :: "string \<Rightarrow> AudioInputConfig \<Rightarrow> string option" where
  "sink_hint_of platform_key config =
     (if platform_key = ''linux'' \<and> truthy (linux_loopback_sink config)
      then map_option lower (linux_loopback_sink config) else None)"

text \<open>
  The body of the \<open>for\<close> loop of \<open>_detect_loopback_candidate\<close> for a device with input
  channels: the value of \<open>is_candidate\<close> at the end of the iteration.
\<close>

definition detect_is_candidate ::
  "string \<Rightarrow> string set \<Rightarrow> string option \<Rightarrow> device \<Rightarrow> bool" where
  "detect_is_candidate platform keyword_set sink_hint d =
     (let inputs = max_input_channels d;
          name = lower (dev_name d);
          is_candidate = (\<exists>keyword \<in> keyword_set. str_in keyword name)
      in
        if platform = ''linux'' then
          (let is_candidate1 =
                 (if \<not> is_candidate \<and> truthy sink_hint \<and> str_in (the sink_hint) name
                  then True else is_candidate)
           in if \<not> is_candidate1 \<and> name \<in> {''pipewire'', ''default''} \<and> inputs \<ge> 2
              then True else is_candidate1)
        else if platform = ''windows'' then
          (if \<not> is_candidate \<and> str_in ''loopback'' name \<and> str_in ''wasapi'' name
           then True else is_candidate)
        else if platform = ''darwin'' then
          (if \<not> is_candidate \<and> str_in ''blackhole'' name then True else is_candidate)
        else is_candidate)"

text \<open>The loop itself: devices without input channels are skipped, the first candidate returns.\<close>

fun detect_loop :: "string \<Rightarrow> string set \<Rightarrow> string option \<Rightarrow> device list \<Rightarrow> bool" where
  "detect_loop platform keyword_set sink_hint [] = False"
| "detect_loop platform keyword_set sink_hint (d # ds) =
     (if max_input_channels d \<le> 0 then detect_loop platform keyword_set sink_hint ds
      else if detect_is_candidate platform keyword_set sink_hint d then True
      else detect_loop platform keyword_set sink_hint ds)"

text \<open>
  \<open>_detect_loopback_candidate\<close>: \<open>platform\<close> is the manager's lowered platform name,
  \<open>devices\<close> the result of \<open>sd.query_devices()\<close> (\<open>None\<close> when the query raises).
\<close>

definition detect_loopback_candidate ::
  "string \<Rightarrow> AudioInputConfig \<Rightarrow> string set \<Rightarrow> device list option
     \<Rightarrow> AudioEnvironmentError + bool" where
  "detect_loopback_candidate platform config keywords devices =
     (case devices of
        None \<Rightarrow> Inl EnumerationFailed
      | Some devs \<Rightarrow>
          Inr (detect_loop platform (lower ` keywords) (sink_hint_of platform config) devs))"

section \<open>Diagnostics: the exhaustive collection\<close>

text \<open>\<open>_summarise_devices\<close>, over \<open>enumerate(devices)\<close>.\<close>

definition summarise_devices :: "device list \<Rightarrow> summary list" where
  "summarise_devices devices =
     map (\<lambda>(idx, d). \<lparr>index = idx, name = dev_name d, inputs = max_input_channels d,
                       outputs = max_output_channels d\<rparr>)
         (enumerate 0 devices)"

text \<open>The table \<open>loopback_keywords\<close> with \<open>dict.get(platform_key, set())\<close>.\<close>

definition loopback_keywords :: "string \<Rightarrow> string set" where
  "loopback_keywords platform_key =
     (if platform_key = ''linux'' then {''monitor'', ''loopback''}
      else if platform_key = ''windows'' then
        {''loopback'', ''stereo mix'', ''cable output'', ''cable input'', ''virtual''}
      else if platform_key = ''darwin'' then
        {''blackhole'', ''loopback'', ''soundflower'', ''aggregate'', ''multi-output''}
      else {})"

text \<open>The body of the loop over \<open>input_summaries\<close>: the final value of \<open>is_candidate\<close>.\<close>

definition collect_is_candidate ::
  "string \<Rightarrow> string set \<Rightarrow> string option \<Rightarrow> summary \<Rightarrow> bool" where
  "collect_is_candidate platform_key keyword_set sink_hint s =
     (let lowered = lower (name s);
          is_candidate = (\<exists>keyword \<in> keyword_set. str_in keyword lowered)
      in
        if platform_key = ''linux'' then
          (let is_candidate1 =
                 (if \<not> is_candidate \<and> truthy sink_hint \<and> str_in (the sink_hint) lowered
                  then True else is_candidate)
           in if \<not> is_candidate1 \<and> lowered \<in> {''pipewire'', ''default''} \<and> inputs s \<ge> 2
              then True else is_candidate1)
        else if platform_key = ''windows'' then
          (if \<not> is_candidate \<and> str_in ''loopback'' lowered \<and> str_in ''wasapi'' lowered
           then True else is_candidate)
        else if platform_key = ''darwin'' then
          (if \<not> is_candidate \<and> str_in ''blackhole'' lowered then True else is_candidate)
        else is_candidate)"

text \<open>\<open>", ".join(...)\<close>.\<close>

fun join :: "string \<Rightarrow> string list \<Rightarrow> string" where
  "join sep [] = []"
| "join sep [x] = x"
| "join sep (x # y # ys) = x @ sep @ join sep (y # ys)"

text \<open>
  \<open>collect_audio_diagnostics\<close>; \<open>platform_system\<close> is \<open>platform.system()\<close> and \<open>devices\<close>
  the result of \<open>sd.query_devices()\<close> (\<open>None\<close> when the query raises).
\<close>

definition collect_audio_diagnostics ::
  "string \<Rightarrow> device list option \<Rightarrow> AudioInputConfig
     \<Rightarrow> AudioEnvironmentError + AudioDiagnosticReport" where
  "collect_audio_diagnostics platform_system devices_result config =
     (case devices_result of
        None \<Rightarrow> Inl EnumerationFailed
      | Some devices \<Rightarrow>
         (let input_devs = filter (\<lambda>dev. max_input_channels dev > 0) devices;
              summaries = summarise_devices devices;
              input_summaries =
                map (\<lambda>(idx, dev). summaries ! idx)
                    (filter (\<lambda>(idx, dev). dev \<in> set input_devs) (enumerate 0 devices));
              platform_key = lower platform_system;
              keywords = loopback_keywords platform_key;
              keyword_set = lower ` keywords;
              sink_hint = sink_hint_of platform_key config;
              candidates =
                filter (collect_is_candidate platform_key keyword_set sink_hint) input_summaries;
              configured =
                (case device_index config of
                   None \<Rightarrow> None
                 | Some i \<Rightarrow>
                     if 0 \<le> i \<and> i < int (length summaries) then Some (summaries ! nat i)
                     else None);
              effective_mode = resolve_capture_mode platform_system config;
              issues0 = (if input_summaries = [] then [NoInputDeviceFound] else []);
              recs0 =
                (if device_index config = None \<and> input_summaries \<noteq> []
                 then [PinDeviceIndex] else []);
              issues1 =
                (if effective_mode = LOOPBACK \<and> candidates = [] \<and> device_index config = None
                 then issues0 @ [NoLoopbackCandidateFound] else issues0);
              recs1 =
                (if effective_mode = LOOPBACK \<and> candidates = [] \<and> device_index config \<noteq> None
                 then recs0 @ [CheckIndexPointsToLoopback] else recs0);
              recs2 =
                (if effective_mode = LOOPBACK \<and> candidates \<noteq> []
                 then recs1 @ [LoopbackCandidates (join '', '' (map name (take 3 candidates)))]
                 else recs1)
          in Inr \<lparr>r_platform = platform_system, r_mode = effective_mode,
                  input_devices = input_summaries, loopback_candidates = candidates,
                  configured_device = configured, issues = issues1,
                  recommendations = recs2\<rparr>))"

section \<open>The world outside the process\<close>

text \<open>
  Module ids of the audio server by kind: the dictionary \<open>{"null": set, "loop": set}\<close> of
  \<open>_snapshot_linux_modules\<close>. Both keys are always present.
\<close>

record module_snapshot =
  mod_null :: "string set"
  mod_loop :: "string set"

text \<open>
  What the audio server answers: \<open>sd.query_devices()\<close> (\<open>None\<close>: the query raises), the
  \<open>Default Sink:\<close> and \<open>Default Source:\<close> lines of \<open>pactl info\<close> (\<open>None\<close>: the command
  fails), the names listed by \<open>pactl list short sinks\<close> and \<open>sources\<close>, and the
  null-sink and loopback modules of \<open>pactl list short modules\<close>.
\<close>

record server =
  devices :: "device list option"
  pactl_info :: "(string option \<times> string option) option"
  sinks :: "string list"
  sources :: "string list"
  modules :: module_snapshot

text \<open>
  The device enumerations and the calls that change something outside the process, in the
  order they are made. The read-only \<open>pactl\<close> queries are not recorded.
\<close>

datatype event =
    QueryDevices
  | RunHelper "string option"
  | SetDefaultSink string
  | SetDefaultSource string
  | UnloadModule string
  | RunPipeline

text \<open>Records logged at level INFO and above (debug records are not modelled).\<close>

datatype log_record =
    InfoApiMode
  | WarnCleanupFailed string
  | WarnPlatformUnsupported string
  | WarnPactlNotFound
  | WarnWindowsHelperExit
  | WarnMacosHelperExit

text \<open>
  How \<open>asyncio.run(run_pipeline(...))\<close> ends: it returns (also after a stop signal, which
  \<open>run_pipeline\<close> turns into a cooperative cancellation), it raises an \<open>Exception\<close>, or a
  \<open>BaseException\<close> such as \<open>KeyboardInterrupt\<close> passes through.
\<close>

datatype pipeline_outcome = Completed | Raised string | Interrupted

text \<open>
  The state the code reads and writes. \<open>environ\<close> is \<open>os.environ\<close>; \<open>helper_ok\<close> tells
  whether the platform's helper script exits with status zero and \<open>server_after_helper\<close>
  what the audio server answers once it has run; \<open>set_order\<close> is the order in which this
  process iterates over a set of strings; \<open>stdin\<close> holds the lines \<open>input()\<close> will read;
  \<open>pipeline\<close> is the transcription pipeline, an external collaborator of which the model
  keeps the outcome and what it does to the process environment.
\<close>

record world =
  platform_system :: string
  environ :: "string \<rightharpoonup> string"
  server :: server
  pactl_on_path :: bool
  powershell_on_path :: bool
  script_is_file :: bool
  script_exists :: bool
  helper_ok :: bool
  server_after_helper :: server
  set_order :: "string set \<Rightarrow> string list"
  env_check_ready :: bool
  settings_audio :: AudioInputConfig
  stdin :: "string list"
  pipeline :: "(string \<rightharpoonup> string) \<Rightarrow> pipeline_outcome \<times> (string \<rightharpoonup> string)"
  trace :: "event list"
  log :: "log_record list"

definition emit :: "event \<Rightarrow> world \<Rightarrow> world" where
  "emit e w = w\<lparr>trace := trace w @ [e]\<rparr>"

definition logging :: "log_record \<Rightarrow> world \<Rightarrow> world" where
  "logging r w = w\<lparr>log := log w @ [r]\<rparr>"

text \<open>\<open>sd.query_devices()\<close>.\<close>

definition query_devices :: "world \<Rightarrow> device list option \<times> world" where
  "query_devices w = (devices (server w), emit QueryDevices w)"

text \<open>\<open>pactl set-default-sink\<close> and \<open>pactl set-default-source\<close>, run with \<open>check=False\<close>.\<close>

definition set_default_sink :: "string \<Rightarrow> world \<Rightarrow> world" where
  "set_default_sink n w =
     emit (SetDefaultSink n)
       (w\<lparr>server := (server w)\<lparr>pactl_info :=
              map_option (\<lambda>(sink, source). (Some n, source)) (pactl_info (server w))\<rparr>\<rparr>)"

definition set_default_source :: "string \<Rightarrow> world \<Rightarrow> world" where
  "set_default_source n w =
     emit (SetDefaultSource n)
       (w\<lparr>server := (server w)\<lparr>pactl_info :=
              map_option (\<lambda>(sink, source). (sink, Some n)) (pactl_info (server w))\<rparr>\<rparr>)"

text \<open>\<open>pactl unload-module\<close>, run with \<open>check=False\<close>.\<close>

definition unload_module :: "string \<Rightarrow> world \<Rightarrow> world" where
  "unload_module module_id w =
     emit (UnloadModule module_id)
       (w\<lparr>server := (server w)\<lparr>modules :=
              \<lparr>mod_null = mod_null (modules (server w)) - {module_id},
               mod_loop = mod_loop (modules (server w)) - {module_id}\<rparr>\<rparr>\<rparr>)"

text \<open>
  Running the platform's helper script as a child process. The argument is the value of
  \<open>HEADPHONE_SINK\<close> in the child's environment; the result tells whether it exited with
  status zero.
\<close>

definition run_helper :: "string option \<Rightarrow> world \<Rightarrow> bool \<times> world" where
  "run_helper headphone_sink w =
     (helper_ok w, emit (RunHelper headphone_sink) (w\<lparr>server := server_after_helper w\<rparr>))"

section \<open>The environment manager\<close>

text \<open>
  A rollback action is a \<open>Callable[[], None]\<close>: run on the world it returns the changed
  world, and \<open>Some msg\<close> when it raises an \<open>Exception\<close> with that message.
\<close>

type_synonym callable = "world \<Rightarrow> string option \<times> world"

record manager =
  config :: AudioInputConfig
  platform :: string
  cleanup_actions :: "callable list"

text \<open>\<open>AudioEnvironmentManager.__init__\<close>.\<close>

definition new_manager :: "AudioInputConfig \<Rightarrow> world \<Rightarrow> manager" where
  "new_manager cfg w =
     \<lparr>config = cfg, platform = lower (platform_system w), cleanup_actions = []\<rparr>"

text \<open>\<open>_ensure_device_presence\<close>.\<close>

definition ensure_device_presence ::
  "manager \<Rightarrow> world \<Rightarrow> (AudioEnvironmentError + unit) \<times> world" where
  "ensure_device_presence m w =
     (let (result, w1) = query_devices w in
      case result of
        None \<Rightarrow> (Inl EnumerationFailed, w1)
      | Some devs \<Rightarrow>
          if devs = [] then (Inl NoAudioDevices, w1)
          else
            (case device_index (config m) of
               Some idx \<Rightarrow>
                 if idx < 0 \<or> idx \<ge> int (length devs)
                 then (Inl (IndexOutOfRange idx (length devs)), w1)
                 else
                   (let device = devs ! nat idx in
                    if max_input_channels device \<le> 0
                    then (Inl (NoInputChannels (dev_name device)), w1)
                    else (Inr (), w1))
             | None \<Rightarrow>
                 if \<not> (\<exists>dev \<in> set devs. max_input_channels dev > 0)
                 then (Inl NoInputCapableDevices, w1)
                 else (Inr (), w1)))"

text \<open>\<open>_detect_loopback_candidate\<close> as a method: the enumeration is a fresh query.\<close>

definition detect_candidate ::
  "manager \<Rightarrow> string set \<Rightarrow> world \<Rightarrow> (AudioEnvironmentError + bool) \<times> world" where
  "detect_candidate m keywords w =
     (let (result, w1) = query_devices w in
      (detect_loopback_candidate (platform m) (config m) keywords result, w1))"

text \<open>\<open>_get_linux_defaults\<close>.\<close>

definition get_linux_defaults :: "world \<Rightarrow> (string option \<times> string option) option" where
  "get_linux_defaults w =
     (case pactl_info (server w) of
        None \<Rightarrow> None
      | Some (sink, source) \<Rightarrow>
          if truthy sink \<or> truthy source then Some (sink, source) else None)"

text \<open>The closure \<open>restore\<close> that \<open>_register_linux_defaults_restore\<close> builds.\<close>

definition restore :: "string option \<Rightarrow> string option \<Rightarrow> callable" where
  "restore sink_name source_name w =
     (let w1 = (if truthy sink_name then set_default_sink (the sink_name) w else w);
          w2 = (if truthy source_name then set_default_source (the source_name) w1 else w1)
      in (None, w2))"

definition register_linux_defaults_restore ::
  "manager \<Rightarrow> string option \<times> string option \<Rightarrow> manager" where
  "register_linux_defaults_restore m defaults =
     (case defaults of (sink, source) \<Rightarrow>
        m\<lparr>cleanup_actions := cleanup_actions m @ [restore sink source]\<rparr>)"

text \<open>The block under \<open>if self._config.auto_setup_loopback\<close> of \<open>_prepare_linux_loopback\<close>.\<close>

definition linux_auto_setup ::
  "manager \<Rightarrow> world \<Rightarrow> (AudioEnvironmentError + unit) \<times> manager \<times> world" where
  "linux_auto_setup m w =
     (let capture_defaults = get_linux_defaults w;
          m1 = (case capture_defaults of
                  None \<Rightarrow> m
                | Some defaults \<Rightarrow> register_linux_defaults_restore m defaults)
      in
        if script_is_file w then
          (let headphone_sink =
                 (if truthy (linux_loopback_sink (config m)) then linux_loopback_sink (config m)
                  else environ w ''HEADPHONE_SINK'');
               (ok, w2) = run_helper headphone_sink w
           in if ok then (Inr (), m1, w2) else (Inl LinuxHelperFailed, m1, w2))
        else (Inr (), m1, w))"

text \<open>\<open>_prepare_linux_loopback\<close>.\<close>

definition prepare_linux_loopback ::
  "manager \<Rightarrow> world \<Rightarrow> (AudioEnvironmentError + unit) \<times> manager \<times> world" where
  "prepare_linux_loopback m w =
     (if \<not> pactl_on_path w then (Inr (), m, logging WarnPactlNotFound w)
      else if environ w ''AUDIO_LOOPBACK_ALREADY_SET'' = Some ''1'' then
        (if device_index (config m) = None then
           (let (found, w1) = detect_candidate m {''monitor'', ''loopback''} w in
            case found of
              Inl e \<Rightarrow> (Inl e, m, w1)
            | Inr b \<Rightarrow> if \<not> b then (Inl LoopbackFlagNoMonitor, m, w1) else (Inr (), m, w1))
         else (Inr (), m, w))
      else
        (let (setup, m1, w1) =
               (if auto_setup_loopback (config m) then linux_auto_setup m w else (Inr (), m, w))
         in case setup of
              Inl e \<Rightarrow> (Inl e, m1, w1)
            | Inr u \<Rightarrow>
                (let (found, w2) = detect_candidate m1 {''monitor'', ''loopback''} w1 in
                 case found of
                   Inl e \<Rightarrow> (Inl e, m1, w2)
                 | Inr b \<Rightarrow>
                     if \<not> b then
                       (if device_index (config m1) = None
                        then (Inl NoLoopbackAfterSetup, m1, w2)
                        else (Inr (), m1, w2))
                     else (Inr (), m1, w2))))"

text \<open>\<open>_prepare_windows_loopback\<close>: a failing helper is logged, never fatal.\<close>

definition prepare_windows_loopback ::
  "manager \<Rightarrow> world \<Rightarrow> (AudioEnvironmentError + unit) \<times> manager \<times> world" where
  "prepare_windows_loopback m w =
     (let w1 =
        (if auto_setup_loopback (config m) then
           (if script_is_file w \<and> powershell_on_path w then
              (let (ok, w') = run_helper (environ w ''HEADPHONE_SINK'') w in
               if ok then w' else logging WarnWindowsHelperExit w')
            else w)
         else w)
      in
        if device_index (config m) = None then
          (let (found, w2) =
                 detect_candidate m
                   {''loopback'', ''stereo mix'', ''cable output'', ''cable input'', ''virtual''} w1
           in case found of
                Inl e \<Rightarrow> (Inl e, m, w2)
              | Inr b \<Rightarrow> if \<not> b then (Inl NoWindowsLoopback, m, w2) else (Inr (), m, w2))
        else (Inr (), m, w1))"

text \<open>\<open>_prepare_macos_loopback\<close>.\<close>

definition prepare_macos_loopback ::
  "manager \<Rightarrow> world \<Rightarrow> (AudioEnvironmentError + unit) \<times> manager \<times> world" where
  "prepare_macos_loopback m w =
     (let w1 =
        (if auto_setup_loopback (config m) then
           (if script_is_file w then
              (let (ok, w') = run_helper (environ w ''HEADPHONE_SINK'') w in
               if ok then w' else logging WarnMacosHelperExit w')
            else w)
         else w)
      in
        if device_index (config m) = None then
          (let (found, w2) =
                 detect_candidate m
                   {''blackhole'', ''loopback'', ''soundflower'', ''aggregate'', ''multi-output''} w1
           in case found of
                Inl e \<Rightarrow> (Inl e, m, w2)
              | Inr b \<Rightarrow> if \<not> b then (Inl NoMacosLoopback, m, w2) else (Inr (), m, w2))
        else (Inr (), m, w1))"

text \<open>\<open>_prepare_loopback\<close>.\<close>

definition prepare_loopback ::
  "manager \<Rightarrow> world \<Rightarrow> (AudioEnvironmentError + unit) \<times> manager \<times> world" where
  "prepare_loopback m w =
     (if platform m = ''linux'' then prepare_linux_loopback m w
      else if platform m = ''windows'' then prepare_windows_loopback m w
      else if platform m = ''darwin'' then prepare_macos_loopback m w
      else (Inr (), m, logging (WarnPlatformUnsupported (platform m)) w))"

text \<open>
  \<open>prepare\<close>. An exception leaves the manager and the world as they are at the \<open>raise\<close>,
  so both are returned next to the result.
\<close>

definition prepare ::
  "manager \<Rightarrow> world \<Rightarrow> (AudioEnvironmentError + unit) \<times> manager \<times> world" where
  "prepare m w =
     (let mode = resolve_capture_mode (platform_system w) (config m);
          m0 = m\<lparr>cleanup_actions := []\<rparr>;
          (present, w1) = ensure_device_presence m0 w
      in case present of
           Inl e \<Rightarrow> (Inl e, m0, w1)
         | Inr u \<Rightarrow>
             if mode = MICROPHONE then (Inr (), m0, w1)
             else if mode = API then (Inr (), m0, logging InfoApiMode w1)
             else if mode = LOOPBACK then prepare_loopback m0 w1
             else (Inr (), m0, w1))"

text \<open>
  One iteration of the loop of \<open>cleanup\<close>: \<open>action()\<close> inside \<open>try\<close>, an
  \<open>Exception\<close> it raises caught and logged as a warning.
\<close>

definition run_action :: "callable \<Rightarrow> world \<Rightarrow> world" where
  "run_action action w =
     (case action w of
        (None, w1) \<Rightarrow> w1
      | (Some msg, w1) \<Rightarrow> logging (WarnCleanupFailed msg) w1)"

text \<open>The \<open>while\<close> loop of \<open>cleanup\<close>: \<open>pop()\<close> takes the last registered action.\<close>

function cleanup_loop :: "callable list \<Rightarrow> world \<Rightarrow> callable list \<times> world" where
  "cleanup_loop actions w =
     (if actions = [] then (actions, w)
      else
        (let action = last actions;
             remaining = butlast actions
         in cleanup_loop remaining (run_action action w)))"
  by pat_completeness auto
termination
  by (relation "measure (\<lambda>(actions, w). length actions)") auto

declare cleanup_loop.simps [simp del]

definition cleanup :: "manager \<Rightarrow> world \<Rightarrow> manager \<times> world" where
  "cleanup m w =
     (let (remaining, w1) = cleanup_loop (cleanup_actions m) w
      in (m\<lparr>cleanup_actions := remaining\<rparr>, w1))"

section \<open>The command line: easy start\<close>

text \<open>What can leave \<open>run_easy_start\<close> as an exception.\<close>

datatype py_exception = EOFError | PipelineError string | KeyboardInterrupt

text \<open>\<open>input(prompt)\<close>: the next line of standard input, \<open>EOFError\<close> when there is none.\<close>

definition input_line :: "world \<Rightarrow> string option \<times> world" where
  "input_line w =
     (case stdin w of
        [] \<Rightarrow> (None, w)
      | line # rest \<Rightarrow> (Some line, w\<lparr>stdin := rest\<rparr>))"

text \<open>\<open>_capture_linux_defaults\<close>.\<close>

definition capture_linux_defaults :: "world \<Rightarrow> (string option \<times> string option) option" where
  "capture_linux_defaults w =
     (case pactl_info (server w) of
        None \<Rightarrow> None
      | Some (sink, source) \<Rightarrow>
          if truthy sink \<or> truthy source then Some (sink, source) else None)"

text \<open>\<open>_restore_linux_defaults\<close>.\<close>

definition restore_linux_defaults ::
  "(string option \<times> string option) option \<Rightarrow> world \<Rightarrow> world" where
  "restore_linux_defaults defaults w =
     (case defaults of
        None \<Rightarrow> w
      | Some (sink, source) \<Rightarrow>
          (let w1 = (if truthy sink then set_default_sink (the sink) w else w)
           in if truthy source then set_default_source (the source) w1 else w1))"

text \<open>\<open>_ensure_linux_physical_defaults\<close>.\<close>

definition ensure_linux_physical_defaults :: "world \<Rightarrow> world" where
  "ensure_linux_physical_defaults w =
     (case pactl_info (server w) of
        None \<Rightarrow> w
      | Some (current_sink, current_source) \<Rightarrow>
          (let physical_sinks =
                 filter (\<lambda>n. \<not> str_in ''codex_transcribe'' n) (sinks (server w));
               physical_sources =
                 filter (\<lambda>n. \<not> str_in ''.monitor'' n \<and> \<not> str_in ''codex_transcribe'' n)
                   (sources (server w));
               w1 = (if truthy current_sink \<and> str_in ''codex_transcribe'' (the current_sink)
                        \<and> physical_sinks \<noteq> []
                     then set_default_sink (hd physical_sinks) w else w)
           in
             if truthy current_source
                \<and> (str_in ''codex_transcribe'' (the current_source)
                     \<or> endswith (the current_source) ''.monitor'')
             then (if physical_sources \<noteq> []
                   then set_default_source (hd physical_sources) w1 else w1)
             else w1))"

text \<open>\<open>_snapshot_linux_modules\<close>.\<close>

definition snapshot_linux_modules :: "world \<Rightarrow> module_snapshot" where
  "snapshot_linux_modules w = modules (server w)"

text \<open>
  \<open>_unload_linux_modules\<close>: the loop over the \<open>"loop"\<close> set, then the loop over the
  \<open>"null"\<close> set, each in the iteration order of the set.
\<close>

definition unload_linux_modules :: "module_snapshot \<Rightarrow> world \<Rightarrow> world" where
  "unload_linux_modules mods w =
     (let w1 = fold unload_module (set_order w (mod_loop mods)) w
      in fold unload_module (set_order w1 (mod_null mods)) w1)"

text \<open>
  The two assignments to \<open>modules_to_unload\<close> after the helper script has run:
  \<open>modules_after[kind] - modules_before_script.get(kind, set())\<close>, with an absent earlier
  snapshot replaced by the empty one.
\<close>

definition modules_diff :: "module_snapshot \<Rightarrow> module_snapshot option \<Rightarrow> module_snapshot" where
  "modules_diff modules_after modules_before_script =
     (let before = (case modules_before_script of
                      None \<Rightarrow> \<lparr>mod_null = {}, mod_loop = {}\<rparr>
                    | Some b \<Rightarrow> b)
      in \<lparr>mod_null = mod_null modules_after - mod_null before,
          mod_loop = mod_loop modules_after - mod_loop before\<rparr>)"

text \<open>\<open>run_cli_diagnostics\<close>; the rendered report goes to standard output.\<close>

definition run_cli_diagnostics ::
  "AudioInputConfig \<Rightarrow> world \<Rightarrow> (AudioEnvironmentError + unit) \<times> world" where
  "run_cli_diagnostics cfg w =
     (let (result, w1) = query_devices w in
      (map_sum id (\<lambda>report. ()) (collect_audio_diagnostics (platform_system w) result cfg), w1))"

text \<open>
  \<open>run_easy_start\<close>, the prompt for the helper script and what follows the answer. \<open>Inl\<close>
  is what the function returns or raises there; \<open>Inr\<close> carries \<open>defaults_before_script\<close>
  and \<open>modules_to_unload\<close> on to the second prompt.
\<close>

definition easy_start_script ::
  "string \<Rightarrow> (string option \<times> string option) option \<Rightarrow> module_snapshot option \<Rightarrow> world
     \<Rightarrow> ((py_exception + bool) + (string option \<times> string option) option \<times> module_snapshot)
         \<times> world" where
  "easy_start_script system defaults_before_script modules_before_script w =
     (case input_line w of
        (None, w1) \<Rightarrow> (Inl (Inl EOFError), w1)
      | (Some line, w1) \<Rightarrow>
          (let answer = lower (strip line) in
           if answer \<in> {''y'', ''yes''} then
             (let (ok, w2) = run_helper (environ w1 ''HEADPHONE_SINK'') w1 in
              if ok then
                (if system = ''linux'' then
                   (Inr (defaults_before_script,
                         modules_diff (snapshot_linux_modules w2) modules_before_script), w2)
                 else (Inr (defaults_before_script, \<lparr>mod_null = {}, mod_loop = {}\<rparr>), w2))
              else
                (let w3 = (if defaults_before_script \<noteq> None
                           then restore_linux_defaults defaults_before_script w2 else w2);
                     w4 = (if system = ''linux'' then
                             unload_linux_modules
                               (modules_diff (snapshot_linux_modules w3) modules_before_script) w3
                           else w3)
                 in (Inl (Inr False), w4)))
           else (Inr (None, \<lparr>mod_null = {}, mod_loop = {}\<rparr>), w1)))"

text \<open>
  \<open>run_easy_start\<close> from the second prompt on: the pipeline is launched inside
  \<open>try\<close>, the \<open>finally\<close> block runs however the launch ends, and the other branch is
  taken when the user declines.
\<close>

definition easy_start_launch ::
  "string \<Rightarrow> (string option \<times> string option) option \<Rightarrow> module_snapshot \<Rightarrow> world
     \<Rightarrow> (py_exception + bool) \<times> world" where
  "easy_start_launch system defaults_before_script modules_to_unload w =
     (case input_line w of
        (None, w1) \<Rightarrow> (Inl EOFError, w1)
      | (Some line, w1) \<Rightarrow>
          (let start = lower (strip line) in
           if start \<in> {[], ''y'', ''yes''} then
             (let (headphone_env_previous, w2) =
                    (if system = ''linux'' then
                       (case defaults_before_script of
                          None \<Rightarrow> (None, w1)
                        | Some (sink_hint, source) \<Rightarrow>
                            if truthy sink_hint then
                              (environ w1 ''HEADPHONE_SINK'',
                               w1\<lparr>environ := (environ w1)(''HEADPHONE_SINK'' \<mapsto> the sink_hint)\<rparr>)
                            else (None, w1))
                     else (None, w1));
                  (loopback_flag_previous, w3) =
                    (if system = ''linux'' then
                       (environ w2 ''AUDIO_LOOPBACK_ALREADY_SET'',
                        w2\<lparr>environ := (environ w2)(''AUDIO_LOOPBACK_ALREADY_SET'' \<mapsto> ''1'')\<rparr>)
                     else (None, w2));
                  (outcome, env_after) = pipeline w3 (environ w3);
                  w4 = emit RunPipeline (w3\<lparr>environ := env_after\<rparr>);
                  w5 = (if defaults_before_script \<noteq> None
                        then restore_linux_defaults defaults_before_script w4 else w4);
                  w6 =
                    (if system = ''linux'' then
                       (let wa = (case headphone_env_previous of
                                    Some previous \<Rightarrow>
                                      w5\<lparr>environ := (environ w5)(''HEADPHONE_SINK'' \<mapsto> previous)\<rparr>
                                  | None \<Rightarrow>
                                      w5\<lparr>environ := (environ w5)(''HEADPHONE_SINK'' := None)\<rparr>);
                            wb = (case loopback_flag_previous of
                                    Some previous \<Rightarrow>
                                      wa\<lparr>environ :=
                                           (environ wa)(''AUDIO_LOOPBACK_ALREADY_SET'' \<mapsto> previous)\<rparr>
                                  | None \<Rightarrow>
                                      wa\<lparr>environ :=
                                           (environ wa)(''AUDIO_LOOPBACK_ALREADY_SET'' := None)\<rparr>)
                        in ensure_linux_physical_defaults
                             (unload_linux_modules modules_to_unload wb))
                     else w5)
              in (case outcome of
                    Completed \<Rightarrow> (Inr True, w6)
                  | Raised msg \<Rightarrow> (Inl (PipelineError msg), w6)
                  | Interrupted \<Rightarrow> (Inl KeyboardInterrupt, w6)))
           else
             (let w2 = (if defaults_before_script \<noteq> None
                        then restore_linux_defaults defaults_before_script w1 else w1);
                  w3 =
                    (if system = ''linux'' then
                       (let wa = w2\<lparr>environ :=
                                     (environ w2)(''AUDIO_LOOPBACK_ALREADY_SET'' := None)\<rparr>;
                            wb = wa\<lparr>environ := (environ wa)(''HEADPHONE_SINK'' := None)\<rparr>
                        in ensure_linux_physical_defaults
                             (unload_linux_modules modules_to_unload wb))
                     else w2)
              in (Inr True, w3))))"

text \<open>\<open>run_easy_start\<close>; \<open>load_settings().audio\<close> is \<open>settings_audio\<close>.\<close>

definition run_easy_start :: "bool \<Rightarrow> world \<Rightarrow> (py_exception + bool) \<times> world" where
  "run_easy_start interactive w =
     (if \<not> env_check_ready w then (Inr False, w)
      else
        (let (diagnostics, w1) = run_cli_diagnostics (settings_audio w) w in
         case diagnostics of
           Inl e \<Rightarrow> (Inr False, w1)
         | Inr u \<Rightarrow>
             (let system = lower (platform_system w1);
                  has_script = (system \<in> {''linux'', ''darwin'', ''windows''});
                  defaults_before_script =
                    (if system = ''linux'' then capture_linux_defaults w1 else None);
                  modules_before_script =
                    (if system = ''linux'' then Some (snapshot_linux_modules w1) else None)
              in
                if \<not> interactive then
                  (let w2 = (if defaults_before_script \<noteq> None
                             then restore_linux_defaults defaults_before_script w1 else w1);
                       w3 = (if system = ''linux'' then ensure_linux_physical_defaults w2 else w2)
                   in (Inr True, w3))
                else
                  (let (step, w2) =
                         (if has_script \<and> script_exists w1 then
                            easy_start_script system defaults_before_script
                              modules_before_script w1
                          else (Inr (defaults_before_script, \<lparr>mod_null = {}, mod_loop = {}\<rparr>),
                                w1))
                   in case step of
                        Inl result \<Rightarrow> (result, w2)
                      | Inr (defaults, modules_to_unload) \<Rightarrow>
                          easy_start_launch system defaults modules_to_unload w2))))"

section \<open>The Linux classification rule, stated on its own\<close>

text \<open>
  Following the specification's words: the (lowered) name contains "monitor" or "loopback",
  or it equals the sink hint without regard to case, or it is "pipewire" or "default" and
  the device has at least two input channels.
\<close>

definition linux_rule_equals_hint :: "string option \<Rightarrow> string \<Rightarrow> int \<Rightarrow> bool" where
  "linux_rule_equals_hint configured_sink lowered n_inputs =
     (str_in ''monitor'' lowered \<or> str_in ''loopback'' lowered
      \<or> (case configured_sink of None \<Rightarrow> False | Some h \<Rightarrow> lowered = lower h)
      \<or> (lowered \<in> {''pipewire'', ''default''} \<and> 2 \<le> n_inputs))"

text \<open>
  The same rule with the second alternative as the code applies it: the configured sink
  hint is not empty and the lowered name contains the lowered hint.
\<close>

definition linux_rule_contains_hint :: "string option \<Rightarrow> string \<Rightarrow> int \<Rightarrow> bool" where
  "linux_rule_contains_hint configured_sink lowered n_inputs =
     (str_in ''monitor'' lowered \<or> str_in ''loopback'' lowered
      \<or> (case configured_sink of None \<Rightarrow> False | Some h \<Rightarrow> h \<noteq> [] \<and> str_in (lower h) lowered)
      \<or> (lowered \<in> {''pipewire'', ''default''} \<and> 2 \<le> n_inputs))"


section \<open>Fixtures\<close>

text \<open>
  The devices of the repository's unit tests, a configuration that leaves everything to the
  platform defaults, and a Linux machine with the control tool, the helper script, one
  webcam microphone and a pipeline that returns.
\<close>

definition webcam :: device where
  "webcam = \<lparr>dev_name = ''alsa_input.usb-Logitech_Webcam-00'', max_input_channels = 2,
             max_output_channels = 0, hostapi = 0\<rparr>"

definition pipewire_device :: device where
  "pipewire_device = \<lparr>dev_name = ''pipewire'', max_input_channels = 64,
                      max_output_channels = 64, hostapi = 0\<rparr>"

definition auto_config :: AudioInputConfig where
  "auto_config = \<lparr>device_index = None, mode = AUTO, auto_setup_loopback = True,
                  linux_loopback_sink = None\<rparr>"

definition linux_server :: server where
  "linux_server =
     \<lparr>devices = Some [webcam],
      pactl_info = Some (Some ''alsa_output.pci.analog-stereo'', Some ''alsa_input.pci.analog-stereo''),
      sinks = [''alsa_output.pci.analog-stereo''],
      sources = [''alsa_output.pci.analog-stereo.monitor'', ''alsa_input.pci.analog-stereo''],
      modules = \<lparr>mod_null = {''1''}, mod_loop = {}\<rparr>\<rparr>"

definition linux_world :: world where
  "linux_world =
     \<lparr>platform_system = ''Linux'',
      environ = Map.empty,
      server = linux_server,
      pactl_on_path = True,
      powershell_on_path = False,
      script_is_file = True,
      script_exists = True,
      helper_ok = True,
      server_after_helper = linux_server,
      set_order = sorted_list_of_set,
      env_check_ready = True,
      settings_audio = auto_config,
      stdin = [],
      pipeline = (\<lambda>env. (Completed, env)),
      trace = [],
      log = []\<rparr>"

section \<open>Properties of the classification\<close>

lemma lower_linux_keywords: "lower ` {''monitor'', ''loopback''} = {''monitor'', ''loopback''}"
  by (simp add: lower_def lower_char_def)

lemma loopback_keywords_linux: "lower ` loopback_keywords ''linux'' = {''monitor'', ''loopback''}"
  by (simp add: loopback_keywords_def lower_def lower_char_def)

lemma sink_hint_of_linux:
  "sink_hint_of ''linux'' cfg =
     (case linux_loopback_sink cfg of
        None \<Rightarrow> None
      | Some h \<Rightarrow> if h = [] then None else Some (lower h))"
  by (simp add: sink_hint_of_def split: option.splits)

lemma lower_eq_Nil: "lower h = [] \<longleftrightarrow> h = []"
  by (simp add: lower_def)

lemma detect_is_candidate_linux:
  "detect_is_candidate ''linux'' {''monitor'', ''loopback''} (sink_hint_of ''linux'' cfg) d
   = linux_rule_contains_hint (linux_loopback_sink cfg) (lower (dev_name d))
       (max_input_channels d)"
  unfolding detect_is_candidate_def linux_rule_contains_hint_def sink_hint_of_linux Let_def
  by (auto simp: lower_eq_Nil split: option.splits)

lemma collect_is_candidate_linux:
  "collect_is_candidate ''linux'' {''monitor'', ''loopback''} (sink_hint_of ''linux'' cfg) s
   = linux_rule_contains_hint (linux_loopback_sink cfg) (lower (name s)) (inputs s)"
  unfolding collect_is_candidate_def linux_rule_contains_hint_def sink_hint_of_linux Let_def
  by (auto simp: lower_eq_Nil split: option.splits)

text \<open>Every summary sits at its own position and repeats the fields of its device.\<close>

lemma summarise_nth:
  "(i, d) \<in> set (enumerate 0 ds) \<Longrightarrow>
     summarise_devices ds ! i =
       \<lparr>index = i, name = dev_name d, inputs = max_input_channels d,
        outputs = max_output_channels d\<rparr>"
  by (auto simp: summarise_devices_def in_set_enumerate_eq nth_enumerate_eq)

text \<open>
  The membership test \<open>dev in input_devices\<close> selects exactly the devices with input
  channels, so \<open>input_summaries\<close> is the list of their summaries.
\<close>

lemma input_summaries_eq:
  "map (\<lambda>(idx, dev). summarise_devices ds ! idx)
       (filter (\<lambda>(idx, dev). dev \<in> set (filter (\<lambda>dev. max_input_channels dev > 0) ds))
          (enumerate 0 ds))
   = filter (\<lambda>s. 0 < inputs s) (summarise_devices ds)"
proof -
  have sel: "filter (\<lambda>(idx, dev). dev \<in> set (filter (\<lambda>dev. max_input_channels dev > 0) ds))
               (enumerate 0 ds)
           = filter (\<lambda>(i, d). max_input_channels d > 0) (enumerate 0 ds)"
    by (rule filter_cong) (auto simp: in_set_enumerate_eq)
  have "map (\<lambda>(idx, dev). summarise_devices ds ! idx)
          (filter (\<lambda>(i, d). max_input_channels d > 0) (enumerate 0 ds))
      = map (\<lambda>(i, d). \<lparr>index = i, name = dev_name d, inputs = max_input_channels d,
                         outputs = max_output_channels d\<rparr>)
          (filter (\<lambda>(i, d). max_input_channels d > 0) (enumerate 0 ds))"
    by (rule map_cong) (auto simp: summarise_nth)
  also have "\<dots> = filter (\<lambda>s. 0 < inputs s) (summarise_devices ds)"
    unfolding summarise_devices_def filter_map
    by (rule arg_cong [where f = "map _"], rule filter_cong) auto
  finally show ?thesis unfolding sel .
qed

lemma collect_detect_candidate:
  "collect_is_candidate p ks h
      \<lparr>index = i, name = dev_name d, inputs = max_input_channels d,
       outputs = max_output_channels d\<rparr>
   = detect_is_candidate p ks h d"
  by (simp add: collect_is_candidate_def detect_is_candidate_def)

lemma detect_loop_iff:
  "detect_loop p ks h ds
   = (\<exists>d \<in> set ds. max_input_channels d > 0 \<and> detect_is_candidate p ks h d)"
  by (induction ds) auto

lemma set_snd_enumerate: "snd ` set (enumerate 0 ds) = set ds"
  by (metis list.set_map map_snd_enumerate)

lemma candidates_nonempty_iff:
  "(filter (collect_is_candidate p ks h)
      (filter (\<lambda>s. 0 < inputs s) (summarise_devices ds)) \<noteq> [])
   = (\<exists>d \<in> set ds. max_input_channels d > 0 \<and> detect_is_candidate p ks h d)"
  (is "?L = ?R")
proof -
  have "?L = (\<exists>x \<in> set (enumerate 0 ds).
                 max_input_channels (snd x) > 0 \<and> detect_is_candidate p ks h (snd x))"
    by (force simp: filter_empty_conv collect_detect_candidate summarise_devices_def)
  also have "\<dots> = (\<exists>d \<in> snd ` set (enumerate 0 ds).
                 max_input_channels d > 0 \<and> detect_is_candidate p ks h d)"
    by blast
  also have "\<dots> = ?R"
    by (simp only: set_snd_enumerate)
  finally show ?thesis .
qed

text \<open>What \<open>collect_audio_diagnostics\<close> puts into the two device lists of its report.\<close>

lemma collect_lists:
  "\<exists>r. collect_audio_diagnostics p (Some ds) cfg = Inr r
     \<and> input_devices r = filter (\<lambda>s. 0 < inputs s) (summarise_devices ds)
     \<and> loopback_candidates r =
         filter (collect_is_candidate (lower p) (lower ` loopback_keywords (lower p))
                   (sink_hint_of (lower p) cfg))
           (filter (\<lambda>s. 0 < inputs s) (summarise_devices ds))"
  unfolding collect_audio_diagnostics_def Let_def input_summaries_eq by simp

text \<open>
  C2, as the code has it. On Linux the exhaustive collection keeps exactly the
  input-capable devices whose lowered name contains "monitor" or "loopback", or contains
  the (non-empty, lowered) sink hint, or is "pipewire" or "default" with at least two input
  channels; the short-circuit check answers whether such a device exists. The sink hint is
  matched by containment, not by equality.
\<close>

theorem linux_candidates_contain_hint:
  assumes "lower sysname = ''linux''"
  shows "(\<exists>r. collect_audio_diagnostics sysname (Some ds) cfg = Inr r
            \<and> input_devices r = filter (\<lambda>s. 0 < inputs s) (summarise_devices ds)
            \<and> loopback_candidates r =
                filter (\<lambda>s. linux_rule_contains_hint (linux_loopback_sink cfg)
                               (lower (name s)) (inputs s))
                  (input_devices r))
       \<and> detect_loopback_candidate (lower sysname) cfg {''monitor'', ''loopback''}
           (Some ds)
         = Inr (\<exists>d \<in> set ds. 0 < max_input_channels d
                  \<and> linux_rule_contains_hint (linux_loopback_sink cfg)
                      (lower (dev_name d)) (max_input_channels d))"
proof -
  obtain r where r: "collect_audio_diagnostics sysname (Some ds) cfg = Inr r"
    and i: "input_devices r = filter (\<lambda>s. 0 < inputs s) (summarise_devices ds)"
    and c: "loopback_candidates r =
         filter (collect_is_candidate ''linux'' (lower ` loopback_keywords ''linux'')
                   (sink_hint_of ''linux'' cfg))
           (filter (\<lambda>s. 0 < inputs s) (summarise_devices ds))"
    using collect_lists [of sysname ds cfg] assms by auto
  have "loopback_candidates r =
          filter (\<lambda>s. linux_rule_contains_hint (linux_loopback_sink cfg)
                         (lower (name s)) (inputs s)) (input_devices r)"
    unfolding c i loopback_keywords_linux
    by (rule filter_cong) (simp_all add: collect_is_candidate_linux)
  moreover have "detect_loopback_candidate (lower sysname) cfg
                   {''monitor'', ''loopback''} (Some ds)
         = Inr (\<exists>d \<in> set ds. 0 < max_input_channels d
                  \<and> linux_rule_contains_hint (linux_loopback_sink cfg)
                      (lower (dev_name d)) (max_input_channels d))"
    unfolding detect_loopback_candidate_def assms lower_linux_keywords
    by (simp add: detect_loop_iff detect_is_candidate_linux)
  ultimately show ?thesis using r i by blast
qed

theorem linux_candidates_contain_hint_witness:
  "lower ''Linux'' = ''linux''
   \<and> detect_loopback_candidate (lower ''Linux'')
       \<lparr>device_index = None, mode = AUTO, auto_setup_loopback = True,
        linux_loopback_sink = Some ''HDMI''\<rparr>
       {''monitor'', ''loopback''}
       (Some [\<lparr>dev_name = ''Built-in Mic'', max_input_channels = 2, max_output_channels = 0,
               hostapi = 0\<rparr>,
              \<lparr>dev_name = ''USB hdmi capture'', max_input_channels = 1,
               max_output_channels = 0, hostapi = 0\<rparr>])
     = Inr True"
proof -
  have l: "lower ''Linux'' = ''linux''"
    by (simp add: lower_def lower_char_def)
  have n: "lower ''USB hdmi capture'' = ''usb hdmi capture''" "lower ''HDMI'' = ''hdmi''"
    by (simp_all add: lower_def lower_char_def)
  show ?thesis
    using linux_candidates_contain_hint [OF l,
        of "[\<lparr>dev_name = ''Built-in Mic'', max_input_channels = 2, max_output_channels = 0,
               hostapi = 0\<rparr>,
              \<lparr>dev_name = ''USB hdmi capture'', max_input_channels = 1,
               max_output_channels = 0, hostapi = 0\<rparr>]"
           "\<lparr>device_index = None, mode = AUTO, auto_setup_loopback = True,
        linux_loopback_sink = Some ''HDMI''\<rparr>"]
    by (simp add: l n linux_rule_contains_hint_def)
qed

text \<open>
  C2 as the specification words it fails: with the sink hint "hdmi" a capture device named
  "USB hdmi capture" is a candidate for both call shapes, although its name is not the hint,
  contains neither keyword and is neither "pipewire" nor "default".
\<close>

theorem linux_rule_equals_hint_counterexample:
  "detect_loopback_candidate ''linux''
       \<lparr>device_index = None, mode = AUTO, auto_setup_loopback = True,
        linux_loopback_sink = Some ''hdmi''\<rparr>
       {''monitor'', ''loopback''}
       (Some [\<lparr>dev_name = ''USB hdmi capture'', max_input_channels = 1,
               max_output_channels = 0, hostapi = 0\<rparr>])
     = Inr True
   \<and> map_sum id (\<lambda>r. map name (loopback_candidates r))
       (collect_audio_diagnostics ''Linux''
          (Some [\<lparr>dev_name = ''USB hdmi capture'', max_input_channels = 1,
                  max_output_channels = 0, hostapi = 0\<rparr>])
          \<lparr>device_index = None, mode = AUTO, auto_setup_loopback = True,
           linux_loopback_sink = Some ''hdmi''\<rparr>)
     = Inr [''USB hdmi capture'']
   \<and> \<not> linux_rule_equals_hint (Some ''hdmi'') (lower ''USB hdmi capture'') 1"
proof -
  have l: "lower ''Linux'' = ''linux''" "lower ''USB hdmi capture'' = ''usb hdmi capture''"
    "lower ''hdmi'' = ''hdmi''"
    by (simp_all add: lower_def lower_char_def)
  have rule: "linux_rule_contains_hint (Some ''hdmi'') ''usb hdmi capture'' 1"
    by (simp add: linux_rule_contains_hint_def l)
  have a: "detect_loopback_candidate ''linux''
       \<lparr>device_index = None, mode = AUTO, auto_setup_loopback = True,
        linux_loopback_sink = Some ''hdmi''\<rparr>
       {''monitor'', ''loopback''}
       (Some [\<lparr>dev_name = ''USB hdmi capture'', max_input_channels = 1,
               max_output_channels = 0, hostapi = 0\<rparr>])
     = Inr True"
    unfolding detect_loopback_candidate_def lower_linux_keywords
    by (simp add: detect_is_candidate_linux l rule)
  have s: "summarise_devices [\<lparr>dev_name = ''USB hdmi capture'', max_input_channels = 1,
               max_output_channels = 0, hostapi = 0\<rparr>]
         = [\<lparr>index = 0, name = ''USB hdmi capture'', inputs = 1, outputs = 0\<rparr>]"
    by (simp add: summarise_devices_def)
  obtain r where r: "collect_audio_diagnostics ''Linux''
          (Some [\<lparr>dev_name = ''USB hdmi capture'', max_input_channels = 1,
                  max_output_channels = 0, hostapi = 0\<rparr>])
          \<lparr>device_index = None, mode = AUTO, auto_setup_loopback = True,
           linux_loopback_sink = Some ''hdmi''\<rparr> = Inr r"
    and c: "loopback_candidates r =
         filter (collect_is_candidate ''linux'' (lower ` loopback_keywords ''linux'')
                   (sink_hint_of ''linux'' \<lparr>device_index = None, mode = AUTO,
                      auto_setup_loopback = True, linux_loopback_sink = Some ''hdmi''\<rparr>))
           (filter (\<lambda>s. 0 < inputs s)
              (summarise_devices [\<lparr>dev_name = ''USB hdmi capture'', max_input_channels = 1,
                  max_output_channels = 0, hostapi = 0\<rparr>]))"
    using collect_lists [of "''Linux''" "[\<lparr>dev_name = ''USB hdmi capture'',
        max_input_channels = 1, max_output_channels = 0, hostapi = 0\<rparr>]"
        "\<lparr>device_index = None, mode = AUTO, auto_setup_loopback = True,
           linux_loopback_sink = Some ''hdmi''\<rparr>"]
    unfolding l by blast
  have "map name (loopback_candidates r) = [''USB hdmi capture'']"
    unfolding c s loopback_keywords_linux
    by (simp add: collect_is_candidate_linux l rule)
  then have b: "map_sum id (\<lambda>r. map name (loopback_candidates r))
       (collect_audio_diagnostics ''Linux''
          (Some [\<lparr>dev_name = ''USB hdmi capture'', max_input_channels = 1,
                  max_output_channels = 0, hostapi = 0\<rparr>])
          \<lparr>device_index = None, mode = AUTO, auto_setup_loopback = True,
           linux_loopback_sink = Some ''hdmi''\<rparr>)
     = Inr [''USB hdmi capture'']"
    by (simp add: r)
  have c: "\<not> linux_rule_equals_hint (Some ''hdmi'') (lower ''USB hdmi capture'') 1"
    by (simp add: linux_rule_equals_hint_def l)
  from a b c show ?thesis by blast
qed

text \<open>
  C6. For every platform name, device enumeration and configuration, the short-circuit
  check called with the platform's keywords gives the answer (or the enumeration error)
  that the exhaustive collection gives through the emptiness of its candidate list.
\<close>

theorem detect_agrees_with_collect:
  "detect_loopback_candidate (lower sysname) cfg
       (loopback_keywords (lower sysname)) devices_result
   = map_sum id (\<lambda>r. loopback_candidates r \<noteq> [])
       (collect_audio_diagnostics sysname devices_result cfg)"
proof (cases devices_result)
  case None
  then show ?thesis
    by (simp add: detect_loopback_candidate_def collect_audio_diagnostics_def)
next
  case (Some ds)
  obtain r where r: "collect_audio_diagnostics sysname (Some ds) cfg = Inr r"
    and c: "loopback_candidates r =
         filter (collect_is_candidate (lower sysname)
                   (lower ` loopback_keywords (lower sysname))
                   (sink_hint_of (lower sysname) cfg))
           (filter (\<lambda>s. 0 < inputs s) (summarise_devices ds))"
    using collect_lists [of sysname ds cfg] by blast
  have "(loopback_candidates r \<noteq> [])
      = (\<exists>d \<in> set ds. max_input_channels d > 0
           \<and> detect_is_candidate (lower sysname) (lower ` loopback_keywords (lower sysname))
               (sink_hint_of (lower sysname) cfg) d)"
    unfolding c by (rule candidates_nonempty_iff)
  then show ?thesis
    by (simp add: Some r detect_loopback_candidate_def detect_loop_iff)
qed

text \<open>The keyword sets that the three preparation methods pass are the table's entries.\<close>

lemma prepare_keywords_are_table_entries:
  "loopback_keywords ''linux'' = {''monitor'', ''loopback''}"
  "loopback_keywords ''windows''
     = {''loopback'', ''stereo mix'', ''cable output'', ''cable input'', ''virtual''}"
  "loopback_keywords ''darwin''
     = {''blackhole'', ''loopback'', ''soundflower'', ''aggregate'', ''multi-output''}"
  by (simp_all add: loopback_keywords_def)

theorem detect_agrees_with_collect_witness:
  "detect_loopback_candidate (lower ''Windows'')
       \<lparr>device_index = None, mode = AUTO, auto_setup_loopback = False,
        linux_loopback_sink = None\<rparr>
       (loopback_keywords (lower ''Windows''))
       (Some [\<lparr>dev_name = ''Stereo Mix'', max_input_channels = 2, max_output_channels = 0,
               hostapi = 0\<rparr>])
   = Inr True
   \<and> map_sum id (\<lambda>r. loopback_candidates r \<noteq> [])
       (collect_audio_diagnostics ''Windows''
          (Some [\<lparr>dev_name = ''Stereo Mix'', max_input_channels = 2, max_output_channels = 0,
                  hostapi = 0\<rparr>])
          \<lparr>device_index = None, mode = AUTO, auto_setup_loopback = False,
           linux_loopback_sink = None\<rparr>)
   = Inr True"
proof -
  have l: "lower ''Windows'' = ''windows''" "lower ''Stereo Mix'' = ''stereo mix''"
    by (simp_all add: lower_def lower_char_def)
  have k: "lower ` loopback_keywords ''windows''
     = {''loopback'', ''stereo mix'', ''cable output'', ''cable input'', ''virtual''}"
    by (simp add: loopback_keywords_def lower_def lower_char_def)
  have a: "detect_loopback_candidate (lower ''Windows'')
       \<lparr>device_index = None, mode = AUTO, auto_setup_loopback = False,
        linux_loopback_sink = None\<rparr>
       (loopback_keywords (lower ''Windows''))
       (Some [\<lparr>dev_name = ''Stereo Mix'', max_input_channels = 2, max_output_channels = 0,
               hostapi = 0\<rparr>])
   = Inr True"
    by (simp add: detect_loopback_candidate_def detect_is_candidate_def l k)
  show ?thesis
    using a detect_agrees_with_collect [of "''Windows''"
        "\<lparr>device_index = None, mode = AUTO, auto_setup_loopback = False,
        linux_loopback_sink = None\<rparr>"
        "Some [\<lparr>dev_name = ''Stereo Mix'', max_input_channels = 2, max_output_channels = 0,
               hostapi = 0\<rparr>]"]
    by simp
qed

text \<open>
  C8. On Linux with effective mode \<open>LOOPBACK\<close>, no configured device index, at least one
  input-capable device and no device that the Linux rule accepts, the report's issue list
  is exactly the no-candidate message, and its recommendation list is the standing advice
  to pin a device index and nothing else: no recommendation that lists candidate names.
\<close>

theorem collect_reports_missing_candidate:
  assumes "lower sysname = ''linux''"
    and "resolve_capture_mode sysname cfg = LOOPBACK"
    and "device_index cfg = None"
    and "\<exists>d \<in> set ds. 0 < max_input_channels d"
    and "\<not> (\<exists>d \<in> set ds. 0 < max_input_channels d
              \<and> linux_rule_contains_hint (linux_loopback_sink cfg) (lower (dev_name d))
                  (max_input_channels d))"
  shows "\<exists>r. collect_audio_diagnostics sysname (Some ds) cfg = Inr r
           \<and> loopback_candidates r = []
           \<and> issues r = [NoLoopbackCandidateFound]
           \<and> recommendations r = [PinDeviceIndex]"
proof -
  have "map inputs (summarise_devices ds) = map max_input_channels (map snd (enumerate 0 ds))"
    unfolding summarise_devices_def map_map by (rule map_cong) auto
  then have "inputs ` set (summarise_devices ds) = max_input_channels ` set ds"
    by (metis list.set_map map_snd_enumerate)
  then have "\<exists>s \<in> set (summarise_devices ds). 0 < inputs s"
    using assms(4) by (metis (no_types, lifting) image_iff)
  then have inp: "filter (\<lambda>s. 0 < inputs s) (summarise_devices ds) \<noteq> []"
    by (simp add: filter_empty_conv)
  have "\<not> (filter (collect_is_candidate ''linux'' (lower ` loopback_keywords ''linux'')
                  (sink_hint_of ''linux'' cfg))
             (filter (\<lambda>s. 0 < inputs s) (summarise_devices ds)) \<noteq> [])"
    unfolding candidates_nonempty_iff loopback_keywords_linux detect_is_candidate_linux
    using assms(5) .
  then have none: "filter (collect_is_candidate ''linux'' (lower ` loopback_keywords ''linux'')
                  (sink_hint_of ''linux'' cfg))
             (filter (\<lambda>s. 0 < inputs s) (summarise_devices ds)) = []"
    by blast
  show ?thesis
    unfolding collect_audio_diagnostics_def Let_def input_summaries_eq
    using inp none assms(1,2,3) by simp
qed

theorem collect_reports_missing_candidate_witness:
  "map_sum id (\<lambda>r. (loopback_candidates r, issues r, recommendations r))
     (collect_audio_diagnostics ''Linux''
        (Some [\<lparr>dev_name = ''alsa_input.usb-Logitech_Webcam-00'', max_input_channels = 2,
                max_output_channels = 0, hostapi = 0\<rparr>])
        \<lparr>device_index = None, mode = AUTO, auto_setup_loopback = True,
         linux_loopback_sink = None\<rparr>)
   = Inr ([], [NoLoopbackCandidateFound], [PinDeviceIndex])"
proof -
  have l: "lower ''Linux'' = ''linux''"
    "lower ''alsa_input.usb-Logitech_Webcam-00'' = ''alsa_input.usb-logitech_webcam-00''"
    by (simp_all add: lower_def lower_char_def)
  have m: "resolve_capture_mode ''Linux''
             \<lparr>device_index = None, mode = AUTO, auto_setup_loopback = True,
              linux_loopback_sink = None\<rparr> = LOOPBACK"
    by (simp add: resolve_capture_mode_def l)
  have n: "\<not> linux_rule_contains_hint None ''alsa_input.usb-logitech_webcam-00'' 2"
    by (simp add: linux_rule_contains_hint_def)
  show ?thesis
    using collect_reports_missing_candidate [OF l(1) m,
        of "[\<lparr>dev_name = ''alsa_input.usb-Logitech_Webcam-00'', max_input_channels = 2,
                max_output_channels = 0, hostapi = 0\<rparr>]"] n
    by (auto simp: l)
qed

section \<open>Properties of the environment manager\<close>

lemma lower_Linux: "lower ''Linux'' = ''linux''"
  by (simp add: lower_def lower_char_def)

lemma lower_webcam:
  "lower ''alsa_input.usb-Logitech_Webcam-00'' = ''alsa_input.usb-logitech_webcam-00''"
  by (simp add: lower_def lower_char_def)

lemma resolve_auto_linux: "resolve_capture_mode ''Linux'' auto_config = LOOPBACK"
  by (simp add: resolve_capture_mode_def auto_config_def lower_Linux)

lemma webcam_is_no_candidate:
  "detect_loopback_candidate ''linux'' auto_config {''monitor'', ''loopback''} (Some [webcam])
   = Inr False"
  unfolding detect_loopback_candidate_def lower_linux_keywords
  by (simp add: detect_is_candidate_linux linux_rule_contains_hint_def webcam_def
      auto_config_def lower_webcam)

text \<open>The presence check reads the configuration only, and records its one enumeration.\<close>

lemma ensure_ignores_actions:
  "ensure_device_presence (m\<lparr>cleanup_actions := acts\<rparr>) w = ensure_device_presence m w"
  by (simp add: ensure_device_presence_def query_devices_def split: option.splits)

lemma ensure_world: "snd (ensure_device_presence m w) = emit QueryDevices w"
  by (simp add: ensure_device_presence_def query_devices_def Let_def
      split: option.splits)

lemma ensure_ok_devices:
  "fst (ensure_device_presence m w) = Inr () \<Longrightarrow> \<exists>ds. devices (server w) = Some ds"
  by (cases "devices (server w)") (simp_all add: ensure_device_presence_def query_devices_def)

text \<open>\<open>prepare\<close> by the result of its presence check.\<close>

lemma prepare_cases:
  "prepare m w =
     (case fst (ensure_device_presence m w) of
        Inl e \<Rightarrow> (Inl e, m\<lparr>cleanup_actions := []\<rparr>, emit QueryDevices w)
      | Inr u \<Rightarrow>
          if resolve_capture_mode (platform_system w) (config m) = MICROPHONE
          then (Inr (), m\<lparr>cleanup_actions := []\<rparr>, emit QueryDevices w)
          else if resolve_capture_mode (platform_system w) (config m) = API
          then (Inr (), m\<lparr>cleanup_actions := []\<rparr>, logging InfoApiMode (emit QueryDevices w))
          else if resolve_capture_mode (platform_system w) (config m) = LOOPBACK
          then prepare_loopback (m\<lparr>cleanup_actions := []\<rparr>) (emit QueryDevices w)
          else (Inr (), m\<lparr>cleanup_actions := []\<rparr>, emit QueryDevices w))"
proof -
  obtain r w1 where e: "ensure_device_presence m w = (r, w1)"
    by fastforce
  then have "w1 = emit QueryDevices w"
    using ensure_world [of m w] by simp
  with e show ?thesis
    by (simp add: prepare_def Let_def ensure_ignores_actions split: sum.splits)
qed

text \<open>
  C3. With a successful enumeration of \<open>n\<close> devices and a configured index outside
  \<open>[0, n-1]\<close>, \<open>prepare\<close> raises the error of the presence check (the out-of-range
  error, or the no-devices error when \<open>n = 0\<close>); the rollback stack is empty, and the world
  differs from the one before only by the record of that one enumeration: no helper script
  has run and no default has been changed.
\<close>

theorem prepare_rejects_index_out_of_range:
  assumes "devices (server w) = Some ds"
    and "device_index (config m) = Some i"
    and "i < 0 \<or> int (length ds) \<le> i"
  shows "prepare m w =
           (Inl (if ds = [] then NoAudioDevices else IndexOutOfRange i (length ds)),
            m\<lparr>cleanup_actions := []\<rparr>,
            emit QueryDevices w)"
  using assms
  by (auto simp: prepare_def ensure_device_presence_def query_devices_def Let_def)

theorem prepare_rejects_index_out_of_range_witness:
  "prepare (new_manager (auto_config\<lparr>device_index := Some 5\<rparr>) linux_world) linux_world
   = (Inl (IndexOutOfRange 5 1),
      new_manager (auto_config\<lparr>device_index := Some 5\<rparr>) linux_world,
      emit QueryDevices linux_world)"
  using prepare_rejects_index_out_of_range [of linux_world "[webcam]"
      "new_manager (auto_config\<lparr>device_index := Some 5\<rparr>) linux_world" 5]
  by (simp add: linux_world_def linux_server_def new_manager_def auto_config_def)

text \<open>The loop of \<open>cleanup\<close> runs the stack from its top and leaves it empty.\<close>

lemma cleanup_loop_fold:
  "cleanup_loop acts w = ([], fold run_action (rev acts) w)"
proof (induction acts w rule: cleanup_loop.induct)
  case (1 actions w)
  show ?case
  proof (cases "actions = []")
    case True
    then show ?thesis by (simp add: cleanup_loop.simps)
  next
    case False
    then have r: "rev actions = last actions # rev (butlast actions)"
      by (metis append_butlast_last_id rev_eq_Cons_iff rev_rev_ident)
    have f: "fold run_action (rev actions) w
        = fold run_action (rev (butlast actions)) (run_action (last actions) w)"
      unfolding r by simp
    have "cleanup_loop actions w = cleanup_loop (butlast actions) (run_action (last actions) w)"
      using False by (subst cleanup_loop.simps) (simp add: Let_def)
    also have "\<dots> = ([], fold run_action (rev (butlast actions)) (run_action (last actions) w))"
      using False "1.IH" by simp
    finally show ?thesis using f by simp
  qed
qed

text \<open>
  C4. For every stack, \<open>cleanup\<close> returns (the loop ends, and no exception leaves it: each
  action runs inside \<open>run_action\<close>, which turns a raised \<open>Exception\<close> into a logged
  warning and goes on), the world it returns is the one obtained by running the actions
  from the last registered to the first, and the stack is empty afterwards. Actions
  registered as \<open>[a, b, c]\<close> run as \<open>c\<close>, \<open>b\<close>, \<open>a\<close>. A second \<open>cleanup\<close> on the drained
  manager leaves any world as it is.
\<close>

theorem cleanup_runs_in_reverse:
  "cleanup m w = (m\<lparr>cleanup_actions := []\<rparr>, fold run_action (rev (cleanup_actions m)) w)
   \<and> snd (cleanup (m\<lparr>cleanup_actions := [a, b, c]\<rparr>) w)
       = run_action a (run_action b (run_action c w))
   \<and> cleanup (fst (cleanup m w)) w' = (fst (cleanup m w), w')"
  by (simp add: cleanup_def cleanup_loop_fold)

text \<open>
  A stack whose middle action raises: the two restoring actions around it still run, last
  registered first, and the failure is in the log.
\<close>

theorem cleanup_runs_in_reverse_witness:
  "trace (snd (cleanup
       ((new_manager auto_config linux_world)
          \<lparr>cleanup_actions := [restore (Some ''sink_a'') None,
                               (\<lambda>w. (Some ''boom'', w)),
                               restore (Some ''sink_c'') None]\<rparr>)
       linux_world))
     = [SetDefaultSink ''sink_c'', SetDefaultSink ''sink_a'']
   \<and> log (snd (cleanup
       ((new_manager auto_config linux_world)
          \<lparr>cleanup_actions := [restore (Some ''sink_a'') None,
                               (\<lambda>w. (Some ''boom'', w)),
                               restore (Some ''sink_c'') None]\<rparr>)
       linux_world))
     = [WarnCleanupFailed ''boom'']"
  using cleanup_runs_in_reverse [of "new_manager auto_config linux_world" linux_world
      "restore (Some ''sink_a'') None" "\<lambda>w. (Some ''boom'', w)"
      "restore (Some ''sink_c'') None" linux_world]
  by (simp add: run_action_def restore_def set_default_sink_def emit_def logging_def
      linux_world_def)

text \<open>\<open>_prepare_linux_loopback\<close> when the control tool is there and the flag is "1".\<close>

lemma prepare_linux_loopback_flag:
  assumes "pactl_on_path w" and "environ w ''AUDIO_LOOPBACK_ALREADY_SET'' = Some ''1''"
  shows "prepare_linux_loopback m w =
           (if device_index (config m) = None then
              (case detect_loopback_candidate (platform m) (config m)
                      {''monitor'', ''loopback''} (devices (server w)) of
                 Inl e \<Rightarrow> (Inl e, m, emit QueryDevices w)
               | Inr b \<Rightarrow>
                   (if b then Inr () else Inl LoopbackFlagNoMonitor, m, emit QueryDevices w))
            else (Inr (), m, w))"
  using assms
  by (simp add: prepare_linux_loopback_def detect_candidate_def query_devices_def
      split: sum.splits)

text \<open>
  C7, as the code has it. On Linux in loopback mode, with the control tool on the path and
  the flag set to "1", \<open>prepare\<close> leaves the rollback stack empty and changes the world
  by nothing but the record of its one or two device enumerations: no helper script, no
  change of defaults. It raises the no-monitor error exactly when its presence check
  passes, no device index is configured and the detection finds no candidate.
\<close>

theorem prepare_with_loopback_flag:
  assumes "platform m = ''linux''"
    and "resolve_capture_mode (platform_system w) (config m) = LOOPBACK"
    and "pactl_on_path w"
    and "environ w ''AUDIO_LOOPBACK_ALREADY_SET'' = Some ''1''"
  shows "\<exists>r qs. prepare m w = (r, m\<lparr>cleanup_actions := []\<rparr>, w\<lparr>trace := trace w @ qs\<rparr>)
           \<and> qs \<in> {[QueryDevices], [QueryDevices, QueryDevices]}
           \<and> ((r = Inl LoopbackFlagNoMonitor)
                = (fst (ensure_device_presence m w) = Inr ()
                   \<and> device_index (config m) = None
                   \<and> detect_loopback_candidate ''linux'' (config m) {''monitor'', ''loopback''}
                       (devices (server w)) = Inr False))"
proof (cases "fst (ensure_device_presence m w)")
  case (Inl e)
  then have "prepare m w
               = (Inl e, m\<lparr>cleanup_actions := []\<rparr>, w\<lparr>trace := trace w @ [QueryDevices]\<rparr>)"
    by (simp add: prepare_cases emit_def)
  moreover have "e \<noteq> LoopbackFlagNoMonitor"
    using Inl
    by (auto simp: ensure_device_presence_def query_devices_def Let_def
        split: option.splits if_splits)
  ultimately show ?thesis
    using Inl by (intro exI [of _ "Inl e"] exI [of _ "[QueryDevices]"]) simp
next
  case (Inr u)
  let ?m0 = "m\<lparr>cleanup_actions := []\<rparr>"
  let ?w1 = "emit QueryDevices w"
  let ?found = "detect_loopback_candidate ''linux'' (config m) {''monitor'', ''loopback''}
                  (devices (server w))"
  have p: "prepare m w = prepare_linux_loopback ?m0 ?w1"
    using Inr assms(1,2) by (simp add: prepare_cases prepare_loopback_def)
  have f: "pactl_on_path ?w1" "environ ?w1 ''AUDIO_LOOPBACK_ALREADY_SET'' = Some ''1''"
    using assms(3,4) by (simp_all add: emit_def)
  note q = p [unfolded prepare_linux_loopback_flag [OF f]]
  show ?thesis
  proof (cases "device_index (config m) = None")
    case False
    with q have "prepare m w = (Inr (), ?m0, w\<lparr>trace := trace w @ [QueryDevices]\<rparr>)"
      by (simp add: emit_def)
    with False show ?thesis
      by (intro exI [of _ "Inr ()"] exI [of _ "[QueryDevices]"]) simp
  next
    case True
    show ?thesis
    proof (cases ?found)
      case (Inl e)
      then have "e = EnumerationFailed"
        by (simp add: detect_loopback_candidate_def split: option.splits)
      with q True Inl assms(1)
      have "prepare m w = (Inl EnumerationFailed, ?m0,
                           w\<lparr>trace := trace w @ [QueryDevices, QueryDevices]\<rparr>)"
        by (simp add: emit_def)
      with Inl show ?thesis
        by (intro exI [of _ "Inl EnumerationFailed"]
            exI [of _ "[QueryDevices, QueryDevices]"]) simp
    next
      case (Inr b)
      with q True assms(1)
      have "prepare m w = (if b then Inr () else Inl LoopbackFlagNoMonitor, ?m0,
                           w\<lparr>trace := trace w @ [QueryDevices, QueryDevices]\<rparr>)"
        by (simp add: emit_def)
      with Inr True \<open>fst (ensure_device_presence m w) = Inr u\<close> show ?thesis
        by (intro exI [of _ "if b then Inr () else Inl LoopbackFlagNoMonitor"]
            exI [of _ "[QueryDevices, QueryDevices]"]) auto
    qed
  qed
qed

theorem prepare_with_loopback_flag_witness:
  "prepare (new_manager auto_config linux_world)
     (linux_world\<lparr>environ := [''AUDIO_LOOPBACK_ALREADY_SET'' \<mapsto> ''1'']\<rparr>)
   = (Inl LoopbackFlagNoMonitor,
      new_manager auto_config linux_world,
      linux_world\<lparr>environ := [''AUDIO_LOOPBACK_ALREADY_SET'' \<mapsto> ''1''],
                  trace := [QueryDevices, QueryDevices]\<rparr>)"
proof -
  let ?w = "linux_world\<lparr>environ := [''AUDIO_LOOPBACK_ALREADY_SET'' \<mapsto> ''1'']\<rparr>"
  let ?m = "new_manager auto_config linux_world"
  have a: "platform ?m = ''linux''"
    by (simp add: new_manager_def linux_world_def lower_Linux)
  have b: "resolve_capture_mode (platform_system ?w) (config ?m) = LOOPBACK"
    by (simp add: new_manager_def linux_world_def resolve_auto_linux)
  have c: "pactl_on_path ?w" "environ ?w ''AUDIO_LOOPBACK_ALREADY_SET'' = Some ''1''"
    by (simp_all add: linux_world_def)
  have d: "fst (ensure_device_presence ?m ?w) = Inr ()"
    by (simp add: ensure_device_presence_def query_devices_def new_manager_def linux_world_def
        linux_server_def auto_config_def webcam_def)
  have e: "detect_loopback_candidate ''linux'' (config ?m) {''monitor'', ''loopback''}
             (devices (server ?w)) = Inr False"
    by (simp add: new_manager_def linux_world_def linux_server_def webcam_is_no_candidate)
  have g: "device_index (config ?m) = None"
    by (simp add: new_manager_def auto_config_def)
  have t: "trace ?w = []"
    by (simp add: linux_world_def)
  obtain r qs where
    p: "prepare ?m ?w = (r, ?m\<lparr>cleanup_actions := []\<rparr>, ?w\<lparr>trace := trace ?w @ qs\<rparr>)"
    and r: "(r = Inl LoopbackFlagNoMonitor)
                = (fst (ensure_device_presence ?m ?w) = Inr ()
                   \<and> device_index (config ?m) = None
                   \<and> detect_loopback_candidate ''linux'' (config ?m) {''monitor'', ''loopback''}
                       (devices (server ?w)) = Inr False)"
    using prepare_with_loopback_flag [OF a b c] by blast
  have r': "r = Inl LoopbackFlagNoMonitor"
    using r d e g by blast
  have "prepare ?m ?w = prepare_linux_loopback (?m\<lparr>cleanup_actions := []\<rparr>) (emit QueryDevices ?w)"
    using d a b by (simp add: prepare_cases prepare_loopback_def)
  also have "\<dots> = (Inl LoopbackFlagNoMonitor, ?m\<lparr>cleanup_actions := []\<rparr>,
                    emit QueryDevices (emit QueryDevices ?w))"
    using c e g a
    by (subst prepare_linux_loopback_flag) (simp_all add: emit_def)
  finally have "snd (snd (prepare ?m ?w)) = emit QueryDevices (emit QueryDevices ?w)"
    by simp
  then show ?thesis
    using p r' by (simp add: emit_def t new_manager_def)
qed

text \<open>
  C7 as stated fails: with the flag set but the control tool missing, \<open>prepare\<close> returns
  although no index is configured and the detection would find no candidate.
\<close>

theorem loopback_flag_without_pactl_counterexample:
  "environ (linux_world\<lparr>pactl_on_path := False,
                        environ := [''AUDIO_LOOPBACK_ALREADY_SET'' \<mapsto> ''1'']\<rparr>)
       ''AUDIO_LOOPBACK_ALREADY_SET'' = Some ''1''
   \<and> device_index auto_config = None
   \<and> detect_loopback_candidate ''linux'' auto_config {''monitor'', ''loopback''}
       (devices (server (linux_world\<lparr>pactl_on_path := False,
                          environ := [''AUDIO_LOOPBACK_ALREADY_SET'' \<mapsto> ''1'']\<rparr>)))
     = Inr False
   \<and> fst (prepare (new_manager auto_config linux_world)
            (linux_world\<lparr>pactl_on_path := False,
                         environ := [''AUDIO_LOOPBACK_ALREADY_SET'' \<mapsto> ''1'']\<rparr>))
     = Inr ()"
proof -
  let ?w = "linux_world\<lparr>pactl_on_path := False,
                        environ := [''AUDIO_LOOPBACK_ALREADY_SET'' \<mapsto> ''1'']\<rparr>"
  let ?m = "new_manager auto_config linux_world"
  have d: "fst (ensure_device_presence ?m ?w) = Inr ()"
    by (simp add: ensure_device_presence_def query_devices_def new_manager_def linux_world_def
        linux_server_def auto_config_def webcam_def)
  have a: "platform ?m = ''linux''"
    by (simp add: new_manager_def linux_world_def lower_Linux)
  have b: "resolve_capture_mode (platform_system ?w) (config ?m) = LOOPBACK"
    by (simp add: new_manager_def linux_world_def resolve_auto_linux)
  have c: "\<not> pactl_on_path (emit QueryDevices ?w)"
    by (simp add: emit_def linux_world_def)
  have "fst (prepare ?m ?w) = Inr ()"
    using a b c d by (simp add: prepare_cases prepare_loopback_def prepare_linux_loopback_def)
  moreover have "detect_loopback_candidate ''linux'' auto_config {''monitor'', ''loopback''}
       (devices (server ?w)) = Inr False"
    by (simp add: linux_world_def linux_server_def webcam_is_no_candidate)
  ultimately show ?thesis
    by (simp add: auto_config_def linux_world_def)
qed

text \<open>
  C9, as the code has it. On Linux in loopback mode without the control tool on the
  path, once the presence check of \<open>prepare\<close> has passed, \<open>prepare\<close> returns: the rollback
  stack is empty, the warning is logged, and the world differs otherwise only by the
  record of the presence check's enumeration, so no detection has run and nothing has been
  changed. Neither a candidate nor a configured index is required.
\<close>

theorem prepare_without_pactl:
  assumes "platform m = ''linux''"
    and "resolve_capture_mode (platform_system w) (config m) = LOOPBACK"
    and "\<not> pactl_on_path w"
    and "fst (ensure_device_presence m w) = Inr ()"
  shows "prepare m w =
           (Inr (), m\<lparr>cleanup_actions := []\<rparr>,
            logging WarnPactlNotFound (emit QueryDevices w))"
proof -
  have "prepare m w = prepare_linux_loopback (m\<lparr>cleanup_actions := []\<rparr>) (emit QueryDevices w)"
    using assms(1,2,4) by (simp add: prepare_cases prepare_loopback_def)
  then show ?thesis
    using assms(3) by (simp add: prepare_linux_loopback_def emit_def)
qed

theorem prepare_without_pactl_witness:
  "detect_loopback_candidate ''linux'' auto_config {''monitor'', ''loopback''}
       (devices (server (linux_world\<lparr>pactl_on_path := False\<rparr>))) = Inr False
   \<and> prepare (new_manager auto_config linux_world) (linux_world\<lparr>pactl_on_path := False\<rparr>)
     = (Inr (), new_manager auto_config linux_world,
        linux_world\<lparr>pactl_on_path := False, trace := [QueryDevices],
                    log := [WarnPactlNotFound]\<rparr>)"
proof -
  let ?w = "linux_world\<lparr>pactl_on_path := False\<rparr>"
  let ?m = "new_manager auto_config linux_world"
  have a: "platform ?m = ''linux''"
    by (simp add: new_manager_def linux_world_def lower_Linux)
  have b: "resolve_capture_mode (platform_system ?w) (config ?m) = LOOPBACK"
    by (simp add: new_manager_def linux_world_def resolve_auto_linux)
  have c: "\<not> pactl_on_path ?w"
    by (simp add: linux_world_def)
  have d: "fst (ensure_device_presence ?m ?w) = Inr ()"
    by (simp add: ensure_device_presence_def query_devices_def new_manager_def linux_world_def
        linux_server_def auto_config_def webcam_def)
  have e: "detect_loopback_candidate ''linux'' auto_config {''monitor'', ''loopback''}
       (devices (server ?w)) = Inr False"
    by (simp add: linux_world_def linux_server_def webcam_is_no_candidate)
  show ?thesis
    using prepare_without_pactl [OF a b c d] e
    by (simp add: emit_def logging_def new_manager_def linux_world_def)
qed

text \<open>
  C9 as stated fails when the presence check does not pass: without the control tool and
  with an empty enumeration, \<open>prepare\<close> raises.
\<close>

theorem prepare_without_pactl_counterexample:
  "platform (new_manager auto_config linux_world) = ''linux''
   \<and> resolve_capture_mode
       (platform_system (linux_world\<lparr>pactl_on_path := False,
                                     server := linux_server\<lparr>devices := Some []\<rparr>\<rparr>))
       (config (new_manager auto_config linux_world)) = LOOPBACK
   \<and> \<not> pactl_on_path (linux_world\<lparr>pactl_on_path := False,
                                   server := linux_server\<lparr>devices := Some []\<rparr>\<rparr>)
   \<and> fst (prepare (new_manager auto_config linux_world)
            (linux_world\<lparr>pactl_on_path := False,
                         server := linux_server\<lparr>devices := Some []\<rparr>\<rparr>))
     = Inl NoAudioDevices"
proof -
  let ?w = "linux_world\<lparr>pactl_on_path := False,
                        server := linux_server\<lparr>devices := Some []\<rparr>\<rparr>"
  let ?m = "new_manager auto_config linux_world"
  have d: "fst (ensure_device_presence ?m ?w) = Inl NoAudioDevices"
    by (simp add: ensure_device_presence_def query_devices_def linux_world_def)
  have a: "platform ?m = ''linux''"
    by (simp add: new_manager_def linux_world_def lower_Linux)
  have b: "resolve_capture_mode (platform_system ?w) (config ?m) = LOOPBACK"
    by (simp add: new_manager_def linux_world_def resolve_auto_linux)
  have c: "\<not> pactl_on_path ?w"
    by (simp add: linux_world_def)
  have "fst (prepare ?m ?w) = Inl NoAudioDevices"
    using d by (simp add: prepare_cases)
  with a b c show ?thesis by blast
qed

section \<open>Properties of easy start\<close>

text \<open>What the audio-server calls leave alone, and what they add to the trace.\<close>

lemma emit_fields [simp]:
  "environ (emit e w) = environ w" "set_order (emit e w) = set_order w"
  "pipeline (emit e w) = pipeline w" "stdin (emit e w) = stdin w"
  "platform_system (emit e w) = platform_system w" "trace (emit e w) = trace w @ [e]"
  by (simp_all add: emit_def)

lemma set_default_sink_fields [simp]:
  "environ (set_default_sink n w) = environ w" "set_order (set_default_sink n w) = set_order w"
  "pipeline (set_default_sink n w) = pipeline w" "stdin (set_default_sink n w) = stdin w"
  "platform_system (set_default_sink n w) = platform_system w"
  by (simp_all add: set_default_sink_def)

lemma set_default_source_fields [simp]:
  "environ (set_default_source n w) = environ w"
  "set_order (set_default_source n w) = set_order w"
  "pipeline (set_default_source n w) = pipeline w" "stdin (set_default_source n w) = stdin w"
  "platform_system (set_default_source n w) = platform_system w"
  by (simp_all add: set_default_source_def)

lemma unload_module_fields [simp]:
  "environ (unload_module i w) = environ w" "set_order (unload_module i w) = set_order w"
  "pipeline (unload_module i w) = pipeline w" "stdin (unload_module i w) = stdin w"
  "platform_system (unload_module i w) = platform_system w"
  "trace (unload_module i w) = trace w @ [UnloadModule i]"
  by (simp_all add: unload_module_def)

lemma fold_unload_fields [simp]:
  "environ (fold unload_module ids w) = environ w"
  "set_order (fold unload_module ids w) = set_order w"
  "pipeline (fold unload_module ids w) = pipeline w"
  "stdin (fold unload_module ids w) = stdin w"
  "platform_system (fold unload_module ids w) = platform_system w"
  "trace (fold unload_module ids w) = trace w @ map UnloadModule ids"
  by (induction ids arbitrary: w) simp_all

lemma restore_linux_defaults_fields [simp]:
  "environ (restore_linux_defaults d w) = environ w"
  "set_order (restore_linux_defaults d w) = set_order w"
  "pipeline (restore_linux_defaults d w) = pipeline w"
  "stdin (restore_linux_defaults d w) = stdin w"
  "platform_system (restore_linux_defaults d w) = platform_system w"
  by (simp_all add: restore_linux_defaults_def Let_def split: option.splits prod.splits)

lemma ensure_linux_physical_defaults_fields [simp]:
  "environ (ensure_linux_physical_defaults w) = environ w"
  "pipeline (ensure_linux_physical_defaults w) = pipeline w"
  "stdin (ensure_linux_physical_defaults w) = stdin w"
  by (simp_all add: ensure_linux_physical_defaults_def Let_def split: option.splits prod.splits)

lemma unload_linux_modules_fields [simp]:
  "environ (unload_linux_modules mods w) = environ w"
  "pipeline (unload_linux_modules mods w) = pipeline w"
  "stdin (unload_linux_modules mods w) = stdin w"
  by (simp_all add: unload_linux_modules_def Let_def)

lemma unload_linux_modules_trace:
  "trace (unload_linux_modules mods w)
   = trace w @ map UnloadModule (set_order w (mod_loop mods))
       @ map UnloadModule (set_order w (mod_null mods))"
  by (simp add: unload_linux_modules_def Let_def)

text \<open>
  C5. Whatever order the process iterates its sets in, unloading the difference of two
  module snapshots issues one unload per module that is in the later snapshot and not in the
  earlier one, of the same kind: first the new loopback modules, then the new null sinks,
  none of them twice and none that the earlier snapshot lists under that kind. For the
  snapshots of the specification's example the calls are: module 3, then module 2.
\<close>

theorem unload_only_new_modules:
  assumes "\<And>S. finite S \<Longrightarrow> set (set_order w S) = S \<and> distinct (set_order w S)"
    and "finite (mod_null aft)" and "finite (mod_loop aft)"
  shows "(\<exists>ls ns. trace (unload_linux_modules (modules_diff aft (Some bef)) w)
                     = trace w @ map UnloadModule ls @ map UnloadModule ns
             \<and> distinct ls \<and> set ls = mod_loop aft - mod_loop bef
             \<and> distinct ns \<and> set ns = mod_null aft - mod_null bef)
       \<and> (bef = \<lparr>mod_null = {''1''}, mod_loop = {}\<rparr>
            \<and> aft = \<lparr>mod_null = {''1'', ''2''}, mod_loop = {''3''}\<rparr>
          \<longrightarrow> trace (unload_linux_modules (modules_diff aft (Some bef)) w)
                = trace w @ [UnloadModule ''3'', UnloadModule ''2''])"
proof -
  let ?l = "set_order w (mod_loop aft - mod_loop bef)"
  let ?n = "set_order w (mod_null aft - mod_null bef)"
  have t: "trace (unload_linux_modules (modules_diff aft (Some bef)) w)
             = trace w @ map UnloadModule ?l @ map UnloadModule ?n"
    by (simp add: unload_linux_modules_trace modules_diff_def)
  have l: "set ?l = mod_loop aft - mod_loop bef" "distinct ?l"
    using assms(1) [of "mod_loop aft - mod_loop bef"] assms(3) by simp_all
  have n: "set ?n = mod_null aft - mod_null bef" "distinct ?n"
    using assms(1) [of "mod_null aft - mod_null bef"] assms(2) by simp_all
  have general: "\<exists>ls ns. trace (unload_linux_modules (modules_diff aft (Some bef)) w)
                     = trace w @ map UnloadModule ls @ map UnloadModule ns
             \<and> distinct ls \<and> set ls = mod_loop aft - mod_loop bef
             \<and> distinct ns \<and> set ns = mod_null aft - mod_null bef"
    using t l n by blast
  have single: "xs = [x]" if "set xs = {x}" "distinct xs" for xs :: "string list" and x
  proof -
    from that have "length xs = 1"
      by (metis One_nat_def card.empty card_insert_disjoint distinct_card empty_iff
          finite.emptyI)
    with that(1) show ?thesis
      by (cases xs) auto
  qed
  have example: "trace (unload_linux_modules (modules_diff aft (Some bef)) w)
                = trace w @ [UnloadModule ''3'', UnloadModule ''2'']"
    if "bef = \<lparr>mod_null = {''1''}, mod_loop = {}\<rparr>"
      and "aft = \<lparr>mod_null = {''1'', ''2''}, mod_loop = {''3''}\<rparr>"
  proof -
    have "mod_loop aft - mod_loop bef = {''3''}" "mod_null aft - mod_null bef = {''2''}"
      unfolding that by simp_all
    then have "set ?l = {''3''}" "set ?n = {''2''}"
      using l(1) n(1) by simp_all
    then have "?l = [''3'']" "?n = [''2'']"
      using l(2) n(2) by (simp_all add: single)
    then show ?thesis
      unfolding t by simp
  qed
  from general example show ?thesis by blast
qed

theorem unload_only_new_modules_witness:
  "trace (unload_linux_modules
            (modules_diff \<lparr>mod_null = {''1'', ''2''}, mod_loop = {''3''}\<rparr>
               (Some \<lparr>mod_null = {''1''}, mod_loop = {}\<rparr>))
            linux_world)
   = [UnloadModule ''3'', UnloadModule ''2'']"
proof -
  have v: "\<And>S. finite S \<Longrightarrow>
             set (set_order linux_world S) = S \<and> distinct (set_order linux_world S)"
    by (simp add: linux_world_def)
  have t: "trace linux_world = []"
    by (simp add: linux_world_def)
  have "\<lparr>mod_null = {''1''}, mod_loop = {}\<rparr> = \<lparr>mod_null = {''1''}, mod_loop = {}\<rparr>
          \<and> \<lparr>mod_null = {''1'', ''2''}, mod_loop = {''3''}\<rparr>
              = \<lparr>mod_null = {''1'', ''2''}, mod_loop = {''3''}\<rparr>
        \<longrightarrow> trace (unload_linux_modules
            (modules_diff \<lparr>mod_null = {''1'', ''2''}, mod_loop = {''3''}\<rparr>
               (Some \<lparr>mod_null = {''1''}, mod_loop = {}\<rparr>))
            linux_world)
            = trace linux_world @ [UnloadModule ''3'', UnloadModule ''2'']"
    by (rule conjunct2 [OF unload_only_new_modules [of linux_world
        "\<lparr>mod_null = {''1'', ''2''}, mod_loop = {''3''}\<rparr>"
        "\<lparr>mod_null = {''1''}, mod_loop = {}\<rparr>", OF v]]) simp_all
  then show ?thesis
    unfolding t by simp
qed

end
